theory Spec2Isabelle
  imports Complex_Main
begin

section \<open>The order record of \<open>jesse/models/Order.py\<close>\<close>

text \<open>
  Modelled from the spec: the enumerations \<open>order_statuses\<close> and \<open>sides\<close> of
  \<open>jesse.enums\<close> are not among the sources. The specification lists the five statuses
  Active, Queued, PartiallyFilled, Executed and Canceled, and the two sides buy and sell.
\<close>

datatype order_statuses = ACTIVE | QUEUED | PARTIALLY_FILLED | EXECUTED | CANCELED

datatype sides = BUY | SELL

type_synonym uuid = string
type_synonym timestamp = int

text \<open>
  The fields of \<open>class Order\<close>, in the order of their declaration. The fields \<open>id\<close> and
  \<open>type\<close> are named \<open>order_id\<close> and \<open>order_type\<close> here. A nullable column is an option,
  \<open>None\<close> being Python's \<open>None\<close>. A \<open>FloatField\<close> is a real number: the arithmetic of
  the two derived views is exact here, rounding of binary floating point is not modelled.
\<close>

record order =
  order_id :: uuid
  trade_id :: "uuid option"
  session_id :: uuid
  exchange_id :: "string option"
  vars :: "(string \<times> string) list"
  symbol :: string
  exchange :: string
  side :: sides
  order_type :: string
  reduce_only :: bool
  qty :: real
  filled_qty :: real
  price :: "real option"
  status :: order_statuses
  created_at :: timestamp
  executed_at :: "timestamp option"
  canceled_at :: "timestamp option"
  submitted_via :: "string option"

subsection \<open>The status properties\<close>

definition is_canceled :: "order \<Rightarrow> bool" where
  "is_canceled ord = (status ord = CANCELED)"

definition is_active :: "order \<Rightarrow> bool" where
  "is_active ord = (status ord = ACTIVE)"

definition is_queued :: "order \<Rightarrow> bool" where
  "is_queued ord = (status ord = QUEUED)"

definition is_executed :: "order \<Rightarrow> bool" where
  "is_executed ord = (status ord = EXECUTED)"

definition is_partially_filled :: "order \<Rightarrow> bool" where
  "is_partially_filled ord = (status ord = PARTIALLY_FILLED)"

definition is_cancellable :: "order \<Rightarrow> bool" where
  "is_cancellable ord = (is_active ord \<or> is_partially_filled ord)"

definition is_new :: "order \<Rightarrow> bool" where
  "is_new ord = is_active ord"

definition is_filled :: "order \<Rightarrow> bool" where
  "is_filled ord = is_executed ord"

subsection \<open>The derived views\<close>

datatype error = NotSupportedError | TypeError

text \<open>
  \<open>Order.value\<close> is \<open>abs(self.qty) * self.price\<close>. The product of a float and \<open>None\<close>
  raises \<open>TypeError\<close> in Python; the source has no guard before the multiplication.
\<close>

definition order_value :: "order \<Rightarrow> error + real" where
  "order_value ord =
     (case price ord of
        None \<Rightarrow> Inl TypeError
      | Some p \<Rightarrow> Inr (\<bar>qty ord\<bar> * p))"

text \<open>
  Modelled from the spec: the helper \<open>prepare_qty\<close> of \<open>jesse.helpers\<close> is not among the
  sources. The specification describes it as the helper that "takes absolute difference and
  re-applies the sign appropriate to the side", quantities being "negative for sell".
\<close>

definition prepare_qty :: "real \<Rightarrow> sides \<Rightarrow> real" where
  "prepare_qty q s = (case s of SELL \<Rightarrow> - \<bar>q\<bar> | BUY \<Rightarrow> \<bar>q\<bar>)"

text \<open>
  \<open>Order.remaining_qty\<close> hands \<open>abs(self.qty) - abs(self.filled_qty)\<close> and the side to the
  helper. \<open>remaining_qty_with\<close> takes the helper as a parameter, \<open>remaining_qty\<close> uses the
  one modelled above.
\<close>

definition remaining_qty_with :: "(real \<Rightarrow> sides \<Rightarrow> real) \<Rightarrow> order \<Rightarrow> real" where
  "remaining_qty_with helper ord = helper (\<bar>qty ord\<bar> - \<bar>filled_qty ord\<bar>) (side ord)"

definition remaining_qty :: "order \<Rightarrow> real" where
  "remaining_qty ord = remaining_qty_with prepare_qty ord"

section \<open>The collaborators\<close>

text \<open>
  The methods read the clock, the identifier generator, the run mode, the debug flags, the
  notification settings and the position registry from ambient modules (\<open>jh\<close>, \<open>config\<close>,
  \<open>selectors\<close>). One \<open>env\<close> holds what these return during one call.
\<close>

type_synonym position = nat

record env =
  now_to_timestamp :: timestamp
  generate_unique_id :: uuid
  is_live :: bool
  is_debuggable :: "string \<Rightarrow> bool"
  notifications_events :: "string \<Rightarrow> bool"
  get_position :: "string \<Rightarrow> string \<Rightarrow> position option"

text \<open>
  The texts handed to the logger and the notifier are kept as their parts. \<open>OrderText\<close> is
  the label, symbol, type, side and quantity, followed by the price when \<open>if self.price\<close>
  holds (the source prints it rounded to two decimals). \<open>PartialText\<close> is the text of a
  partial fill: symbol, type, side, filled quantity, remaining quantity and price.
\<close>

datatype message =
    OrderText string string string sides real "real option"
  | PartialText string string sides real real "real option"

text \<open>
  Every call into a collaborator is an event, with the order as it is at the moment of the
  call. A method returns the events in the order the calls are made.
\<close>

datatype event =
    LogInfo message
  | Notify message
  | OnOrderCancellation order
  | AddExecutedOrder order
  | OnOrderExecution order
  | OnExecutedOrder position order

text \<open>
  A method either returns or raises; in both cases the record is left as the method has made
  it so far, and the events are the calls made so far.
\<close>

datatype outcome =
    Returned order "event list"
  | Raised error order "event list"

fun order_of :: "outcome \<Rightarrow> order" where
  "order_of (Returned ord evs) = ord"
| "order_of (Raised err ord evs) = ord"

fun events_of :: "outcome \<Rightarrow> event list" where
  "events_of (Returned ord evs) = evs"
| "events_of (Raised err ord evs) = evs"

fun raised :: "outcome \<Rightarrow> error option" where
  "raised (Returned ord evs) = None"
| "raised (Raised err ord evs) = Some err"

text \<open>Python's truth value of a nullable float: \<open>None\<close> and \<open>0.0\<close> are false.\<close>

definition truthy :: "real option \<Rightarrow> bool" where
  "truthy p = (case p of None \<Rightarrow> False | Some x \<Rightarrow> x \<noteq> 0)"

definition order_text :: "string \<Rightarrow> order \<Rightarrow> message" where
  "order_text label ord =
     OrderText label (symbol ord) (order_type ord) (side ord) (qty ord)
       (if truthy (price ord) then price ord else None)"

definition partial_text :: "order \<Rightarrow> message" where
  "partial_text ord =
     PartialText (symbol ord) (order_type ord) (side ord) (filled_qty ord)
       (remaining_qty ord) (price ord)"

section \<open>The lifecycle methods\<close>

definition notify_submission :: "env \<Rightarrow> order \<Rightarrow> event list" where
  "notify_submission e ord =
     (if notifications_events e ''submitted_orders'' \<and> (is_active ord \<or> is_queued ord)
      then [Notify (order_text (if is_queued ord then ''QUEUED'' else ''SUBMITTED'') ord)]
      else [])"

text \<open>In \<open>queue\<close> and \<open>resubmit\<close> the call of the logger sits inside \<open>if self.price\<close>.\<close>

definition queue :: "env \<Rightarrow> order \<Rightarrow> outcome" where
  "queue e ord =
     (let ord1 = ord\<lparr>status := QUEUED, canceled_at := None\<rparr>;
          logged = (if is_debuggable e ''order_submission'' \<and> truthy (price ord1)
                    then [LogInfo (order_text ''QUEUED'' ord1)] else [])
      in Returned ord1 (logged @ notify_submission e ord1))"

definition resubmit :: "env \<Rightarrow> order \<Rightarrow> outcome" where
  "resubmit e ord =
     (if \<not> is_queued ord then Raised NotSupportedError ord []
      else
        let ord1 = ord\<lparr>order_id := generate_unique_id e, status := ACTIVE, canceled_at := None\<rparr>;
            logged = (if is_debuggable e ''order_submission'' \<and> truthy (price ord1)
                      then [LogInfo (order_text ''SUBMITTED'' ord1)] else [])
        in Returned ord1 (logged @ notify_submission e ord1))"

text \<open>
  The announcement of \<open>cancel\<close> and \<open>execute\<close> when not silent: the logger if the debug flag
  \<open>flag\<close> is set, then the notifier in live mode if the setting \<open>setting\<close> is on.
\<close>

definition announce :: "env \<Rightarrow> bool \<Rightarrow> string \<Rightarrow> string \<Rightarrow> message \<Rightarrow> event list" where
  "announce e silent flag setting txt =
     (if \<not> silent
      then (if is_debuggable e flag then [LogInfo txt] else [])
         @ (if is_live e then (if notifications_events e setting then [Notify txt] else [])
            else [])
      else [])"

definition cancel :: "env \<Rightarrow> bool \<Rightarrow> string \<Rightarrow> order \<Rightarrow> outcome" where
  "cancel e silent source ord =
     (if is_canceled ord \<or> is_executed ord then Returned ord []
      else if source = ''stream'' \<and> is_queued ord then Returned ord []
      else
        let ord1 = ord\<lparr>canceled_at := Some (now_to_timestamp e), status := CANCELED\<rparr>
        in Returned ord1
             (announce e silent ''order_cancellation'' ''cancelled_orders''
                (order_text ''CANCELED'' ord1)
              @ [OnOrderCancellation ord1]))"

definition on_executed_order :: "env \<Rightarrow> order \<Rightarrow> event list" where
  "on_executed_order e ord =
     (case get_position e (exchange ord) (symbol ord) of
        None \<Rightarrow> []
      | Some p \<Rightarrow> [OnExecutedOrder p ord])"

definition execute :: "env \<Rightarrow> bool \<Rightarrow> order \<Rightarrow> outcome" where
  "execute e silent ord =
     (if is_canceled ord \<or> is_executed ord then Returned ord []
      else
        let ord1 = ord\<lparr>executed_at := Some (now_to_timestamp e), status := EXECUTED\<rparr>
        in Returned ord1
             (announce e silent ''order_execution'' ''executed_orders''
                (order_text ''EXECUTED'' ord1)
              @ [AddExecutedOrder ord1, OnOrderExecution ord1]
              @ on_executed_order e ord1))"

definition execute_partially :: "env \<Rightarrow> bool \<Rightarrow> order \<Rightarrow> outcome" where
  "execute_partially e silent ord =
     (let ord1 = ord\<lparr>executed_at := Some (now_to_timestamp e), status := PARTIALLY_FILLED\<rparr>
      in Returned ord1
           (announce e silent ''order_execution'' ''executed_orders'' (partial_text ord1)
            @ [AddExecutedOrder ord1]
            @ on_executed_order e ord1))"

section \<open>Sequences of calls\<close>

text \<open>
  A caller invokes the methods one after another on the same record, each call with its own
  readings of the clock and the other ambient modules. When \<open>resubmit\<close> raises, the record is
  as the raise left it, and the caller may go on with it.
\<close>

datatype call = Queue | Resubmit | Cancel bool string | Execute bool | ExecutePartially bool

fun apply_call :: "env \<Rightarrow> call \<Rightarrow> order \<Rightarrow> outcome" where
  "apply_call e Queue ord = queue e ord"
| "apply_call e Resubmit ord = resubmit e ord"
| "apply_call e (Cancel silent source) ord = cancel e silent source ord"
| "apply_call e (Execute silent) ord = execute e silent ord"
| "apply_call e (ExecutePartially silent) ord = execute_partially e silent ord"

fun run :: "(env \<times> call) list \<Rightarrow> order \<Rightarrow> order" where
  "run [] ord = ord"
| "run ((e, c) # cs) ord = run cs (order_of (apply_call e c ord))"

text \<open>The two statuses that \<open>cancel\<close> and \<open>execute\<close> guard against.\<close>

definition terminal :: "order \<Rightarrow> bool" where
  "terminal ord = (is_canceled ord \<or> is_executed ord)"

text \<open>
  \<open>partial_fills_open cs ord\<close>: in the sequence \<open>cs\<close>, started on \<open>ord\<close>, every call of
  \<open>execute_partially\<close> finds the order neither canceled nor executed.
\<close>

fun partial_fills_open :: "(env \<times> call) list \<Rightarrow> order \<Rightarrow> bool" where
  "partial_fills_open [] ord = True"
| "partial_fills_open ((e, c) # cs) ord =
     ((case c of ExecutePartially silent \<Rightarrow> \<not> terminal ord | _ \<Rightarrow> True)
      \<and> partial_fills_open cs (order_of (apply_call e c ord)))"

text \<open>
  A fresh record: the column defaults leave \<open>executed_at\<close> and \<open>canceled_at\<close> null and the
  status active; the caller may construct the order as queued instead.
\<close>

definition fresh :: "order \<Rightarrow> bool" where
  "fresh ord =
     ((is_active ord \<or> is_queued ord) \<and> executed_at ord = None \<and> canceled_at ord = None)"

definition stamps_match :: "order \<Rightarrow> bool" where
  "stamps_match ord =
     ((is_executed ord \<or> is_partially_filled ord \<longrightarrow> executed_at ord \<noteq> None)
      \<and> (canceled_at ord \<noteq> None \<longleftrightarrow> is_canceled ord))"

text \<open>
  The calls into the ledger, the exchange and the position, without the texts sent to the
  logger and the notifier.
\<close>

fun port_calls :: "event list \<Rightarrow> event list" where
  "port_calls [] = []"
| "port_calls (LogInfo txt # evs) = port_calls evs"
| "port_calls (Notify txt # evs) = port_calls evs"
| "port_calls (ev # evs) = ev # port_calls evs"

fun is_add_executed_order :: "event \<Rightarrow> bool" where
  "is_add_executed_order (AddExecutedOrder ord) = True"
| "is_add_executed_order ev = False"

section \<open>Example data\<close>

definition example_env :: env where
  "example_env =
     \<lparr>now_to_timestamp = 1700000000000,
      generate_unique_id = ''id-2'',
      is_live = True,
      is_debuggable = (\<lambda>k. True),
      notifications_events = (\<lambda>k. True),
      get_position = (\<lambda>ex sy. if ex = ''Binance'' \<and> sy = ''BTC-USDT'' then Some 7 else None)\<rparr>"

text \<open>A sell order of quantity \<open>-2\<close> at price \<open>100\<close>, active.\<close>

definition example_order :: order where
  "example_order =
     \<lparr>order_id = ''id-1'', trade_id = None, session_id = ''s-1'', exchange_id = None,
      vars = [], symbol = ''BTC-USDT'', exchange = ''Binance'', side = SELL,
      order_type = ''LIMIT'', reduce_only = False, qty = - 2, filled_qty = 0,
      price = Some 100, status = ACTIVE, created_at = 1600000000000,
      executed_at = None, canceled_at = None, submitted_via = None\<rparr>"



definition canceled_order :: order where
  "canceled_order = example_order\<lparr>status := CANCELED, canceled_at := Some 1650000000000\<rparr>"

definition partial_then_cancel :: "(env \<times> call) list" where
  "partial_then_cancel = [(example_env, ExecutePartially False), (example_env, Cancel False [])]"

definition example_calls :: "(env \<times> call) list" where
  "example_calls =
     [(example_env, ExecutePartially False), (example_env, Cancel False []),
      (example_env, Queue), (example_env, Resubmit), (example_env, Execute True)]"

section \<open>Properties\<close>

lemmas status_defs = is_canceled_def is_active_def is_queued_def is_executed_def
  is_partially_filled_def

lemma port_calls_append: "port_calls (xs @ ys) = port_calls xs @ port_calls ys"
  by (induction xs rule: port_calls.induct) simp_all

lemma port_calls_announce: "port_calls (announce e silent flag setting txt) = []"
  by (simp add: announce_def)

lemma no_ledger_in_announce:
  "filter is_add_executed_order (announce e silent flag setting txt) = []"
  by (simp add: announce_def)

lemma no_ledger_in_on_executed_order:
  "filter is_add_executed_order (on_executed_order e ord) = []"
  by (simp add: on_executed_order_def split: option.splits)

subsection \<open>The derived views\<close>

text \<open>
  Claim C9. The remaining quantity is the helper "prepare quantity for side" applied to
  \<open>|qty| - |filled_qty|\<close> and the side, whatever the helper is. With the helper as the
  specification describes it, a sell order with quantity \<open>-2\<close> and filled quantity \<open>1\<close> has
  the remaining quantity \<open>-1\<close>. The view is a function of the fields \<open>qty\<close>, \<open>filled_qty\<close>
  and \<open>side\<close> alone: it returns a number for every record and calls no collaborator.
\<close>

theorem remaining_qty_sign_adjusted:
  "remaining_qty_with helper ord = helper (\<bar>qty ord\<bar> - \<bar>filled_qty ord\<bar>) (side ord)
   \<and> remaining_qty ord = prepare_qty (\<bar>qty ord\<bar> - \<bar>filled_qty ord\<bar>) (side ord)
   \<and> (side ord = SELL \<and> qty ord = - 2 \<and> filled_qty ord = 1 \<longrightarrow> remaining_qty ord = - 1)
   \<and> (qty ord = qty ord' \<and> filled_qty ord = filled_qty ord' \<and> side ord = side ord'
        \<longrightarrow> remaining_qty ord = remaining_qty ord')"
  by (simp add: remaining_qty_def remaining_qty_with_def prepare_qty_def)

theorem remaining_qty_sign_adjusted_witness:
  "remaining_qty (example_order\<lparr>filled_qty := 1\<rparr>) = - 1
   \<and> remaining_qty (example_order\<lparr>filled_qty := 1\<rparr>)
       = remaining_qty (example_order\<lparr>filled_qty := 1, status := CANCELED\<rparr>)"
  using remaining_qty_sign_adjusted
          [of prepare_qty "example_order\<lparr>filled_qty := 1\<rparr>"
              "example_order\<lparr>filled_qty := 1, status := CANCELED\<rparr>"]
  by (simp add: example_order_def)

text \<open>
  Claim C10. When the price is not null, the notional value is \<open>|qty| * price\<close>. When the
  price is null, the multiplication raises: the view returns a value exactly when the price
  is not null.
\<close>

theorem value_needs_price:
  "(price ord = Some p \<longrightarrow> order_value ord = Inr (\<bar>qty ord\<bar> * p))
   \<and> (price ord = None \<longrightarrow> order_value ord = Inl TypeError)
   \<and> ((\<exists>v. order_value ord = Inr v) \<longleftrightarrow> price ord \<noteq> None)"
  by (cases "price ord") (simp_all add: order_value_def)

theorem value_needs_price_witness:
  "order_value example_order = Inr 200
   \<and> order_value (example_order\<lparr>price := None\<rparr>) = Inl TypeError"
  using value_needs_price [of example_order 100]
        value_needs_price [of "example_order\<lparr>price := None\<rparr>" 0]
  by (simp add: example_order_def)

subsection \<open>Resubmission\<close>

text \<open>
  Claim C3. \<open>resubmit\<close> raises its error (\<open>NotSupportedError\<close> in the source) if and only if
  the status is not queued, and then it leaves the record as it was and has called no
  collaborator. None of \<open>queue\<close>, \<open>cancel\<close>, \<open>execute\<close> and \<open>execute_partially\<close> raises.
\<close>

theorem resubmit_raises_iff_not_queued:
  "(raised (resubmit e ord) = Some NotSupportedError \<longleftrightarrow> status ord \<noteq> QUEUED)
   \<and> (raised (resubmit e ord) = None \<longleftrightarrow> status ord = QUEUED)
   \<and> (status ord \<noteq> QUEUED \<longrightarrow> resubmit e ord = Raised NotSupportedError ord [])
   \<and> raised (queue e ord) = None
   \<and> raised (cancel e silent source ord) = None
   \<and> raised (execute e silent ord) = None
   \<and> raised (execute_partially e silent ord) = None"
  by (simp add: resubmit_def queue_def cancel_def execute_def execute_partially_def
        is_queued_def Let_def)

theorem resubmit_raises_iff_not_queued_witness:
  "status example_order \<noteq> QUEUED
   \<and> resubmit example_env example_order = Raised NotSupportedError example_order []
   \<and> raised (resubmit example_env (example_order\<lparr>status := QUEUED\<rparr>)) = None"
  using resubmit_raises_iff_not_queued [of example_env example_order]
        resubmit_raises_iff_not_queued [of example_env "example_order\<lparr>status := QUEUED\<rparr>"]
  by (simp add: example_order_def)




subsection \<open>Cancellation and execution\<close>

text \<open>
  Claim C5. On an order that is already canceled or executed, \<open>cancel\<close> and \<open>execute\<close> return
  the record unchanged and call no collaborator. Hence a second \<open>cancel\<close> right after a
  \<open>cancel\<close> from the same source, and a second \<open>execute\<close> right after an \<open>execute\<close>, leave
  the record as the first call made it and call no collaborator.
\<close>

theorem cancel_execute_idempotent:
  "(status ord = CANCELED \<or> status ord = EXECUTED \<longrightarrow>
      cancel e silent source ord = Returned ord []
      \<and> execute e silent ord = Returned ord [])
   \<and> cancel e2 silent2 source (order_of (cancel e1 silent1 source ord))
       = Returned (order_of (cancel e1 silent1 source ord)) []
   \<and> execute e2 silent2 (order_of (execute e1 silent1 ord))
       = Returned (order_of (execute e1 silent1 ord)) []"
  by (simp add: cancel_def execute_def status_defs Let_def)

theorem cancel_execute_idempotent_witness:
  "status (order_of (cancel example_env False [] example_order)) = CANCELED
   \<and> events_of (cancel example_env False [] example_order) \<noteq> []
   \<and> cancel example_env False [] (order_of (cancel example_env False [] example_order))
       = Returned (order_of (cancel example_env False [] example_order)) []
   \<and> execute example_env False (order_of (cancel example_env False [] example_order))
       = Returned (order_of (cancel example_env False [] example_order)) []"
  using cancel_execute_idempotent
          [of "order_of (cancel example_env False [] example_order)" example_env False "[]"
              example_env False example_env False]
  by (simp add: cancel_def status_defs example_order_def Let_def)

text \<open>
  Claim C6. With the source \<open>stream\<close>, \<open>cancel\<close> on a queued order returns the record
  unchanged and calls no collaborator. On an active or partially filled order it does what
  \<open>cancel\<close> does from any other source: the status becomes canceled and \<open>canceled_at\<close> the
  current time. The source \<open>stream\<close> changes what \<open>cancel\<close> does exactly when the order is
  queued; among the orders that are neither canceled nor executed, \<open>cancel\<close> from the stream
  does nothing exactly on the queued ones.
\<close>

theorem cancel_from_stream:
  "(status ord = QUEUED \<longrightarrow> cancel e silent ''stream'' ord = Returned ord [])
   \<and> (status ord = ACTIVE \<or> status ord = PARTIALLY_FILLED \<longrightarrow>
        cancel e silent ''stream'' ord = cancel e silent [] ord
        \<and> status (order_of (cancel e silent ''stream'' ord)) = CANCELED
        \<and> canceled_at (order_of (cancel e silent ''stream'' ord)) = Some (now_to_timestamp e)
        \<and> events_of (cancel e silent ''stream'' ord) \<noteq> [])
   \<and> (source \<noteq> ''stream'' \<longrightarrow>
        (cancel e silent ''stream'' ord \<noteq> cancel e silent source ord
           \<longleftrightarrow> status ord = QUEUED))
   \<and> (status ord \<noteq> CANCELED \<and> status ord \<noteq> EXECUTED \<longrightarrow>
        (cancel e silent ''stream'' ord = Returned ord [] \<longleftrightarrow> status ord = QUEUED))
   \<and> (status ord = QUEUED \<and> source \<noteq> ''stream'' \<longrightarrow>
        status (order_of (cancel e silent source ord)) = CANCELED)"
  by (cases "status ord") (simp_all add: cancel_def status_defs Let_def)

theorem cancel_from_stream_witness:
  "cancel example_env False ''stream'' (example_order\<lparr>status := QUEUED\<rparr>)
     = Returned (example_order\<lparr>status := QUEUED\<rparr>) []
   \<and> status (order_of (cancel example_env False ''stream''
         (example_order\<lparr>status := PARTIALLY_FILLED\<rparr>))) = CANCELED
   \<and> status (order_of (cancel example_env False ''api''
         (example_order\<lparr>status := QUEUED\<rparr>))) = CANCELED"
proof -
  have queued: "cancel example_env False ''stream'' (example_order\<lparr>status := QUEUED\<rparr>)
                 = Returned (example_order\<lparr>status := QUEUED\<rparr>) []"
    and other: "status (order_of (cancel example_env False ''api''
                  (example_order\<lparr>status := QUEUED\<rparr>))) = CANCELED"
    using cancel_from_stream [of "example_order\<lparr>status := QUEUED\<rparr>" example_env False "''api''"]
    by simp_all
  have partial: "status (order_of (cancel example_env False ''stream''
                   (example_order\<lparr>status := PARTIALLY_FILLED\<rparr>))) = CANCELED"
  proof -
    have "status (example_order\<lparr>status := PARTIALLY_FILLED\<rparr>) = ACTIVE
          \<or> status (example_order\<lparr>status := PARTIALLY_FILLED\<rparr>) = PARTIALLY_FILLED"
      by simp
    with cancel_from_stream [of "example_order\<lparr>status := PARTIALLY_FILLED\<rparr>" example_env False]
    show ?thesis by blast
  qed
  from queued partial other show ?thesis by simp
qed

text \<open>
  Claim C7. On an order that is neither canceled nor executed, \<open>execute\<close> calls the trade
  ledger once, then the exchange's \<open>on_order_execution\<close>, then the position's
  \<open>_on_executed_order\<close> if and only if there is a position for the exchange and symbol;
  \<open>execute_partially\<close> calls the trade ledger once, then the position if there is one. Each
  call receives the order as the method has updated it.
\<close>

theorem execution_port_order:
  assumes "status ord \<noteq> EXECUTED" and "status ord \<noteq> CANCELED"
  shows "port_calls (events_of (execute e silent ord))
           = AddExecutedOrder (order_of (execute e silent ord))
             # OnOrderExecution (order_of (execute e silent ord))
             # (case get_position e (exchange ord) (symbol ord) of
                  None \<Rightarrow> []
                | Some p \<Rightarrow> [OnExecutedOrder p (order_of (execute e silent ord))])
    \<and> length (filter is_add_executed_order (events_of (execute e silent ord))) = 1
    \<and> port_calls (events_of (execute_partially e silent ord))
           = AddExecutedOrder (order_of (execute_partially e silent ord))
             # (case get_position e (exchange ord) (symbol ord) of
                  None \<Rightarrow> []
                | Some p \<Rightarrow> [OnExecutedOrder p (order_of (execute_partially e silent ord))])
    \<and> length (filter is_add_executed_order (events_of (execute_partially e silent ord))) = 1"
proof -
  have full: "port_calls (events_of (execute e silent ord))
           = AddExecutedOrder (order_of (execute e silent ord))
             # OnOrderExecution (order_of (execute e silent ord))
             # (case get_position e (exchange ord) (symbol ord) of
                  None \<Rightarrow> []
                | Some p \<Rightarrow> [OnExecutedOrder p (order_of (execute e silent ord))])"
    using assms
    by (simp add: execute_def status_defs Let_def port_calls_append port_calls_announce
          on_executed_order_def split: option.splits)
  have full_once: "length (filter is_add_executed_order (events_of (execute e silent ord))) = 1"
    using assms
    by (simp add: execute_def status_defs Let_def no_ledger_in_announce
          no_ledger_in_on_executed_order)
  have part: "port_calls (events_of (execute_partially e silent ord))
           = AddExecutedOrder (order_of (execute_partially e silent ord))
             # (case get_position e (exchange ord) (symbol ord) of
                  None \<Rightarrow> []
                | Some p \<Rightarrow> [OnExecutedOrder p (order_of (execute_partially e silent ord))])"
    by (simp add: execute_partially_def Let_def port_calls_append port_calls_announce
          on_executed_order_def split: option.splits)
  have part_once:
    "length (filter is_add_executed_order (events_of (execute_partially e silent ord))) = 1"
    by (simp add: execute_partially_def Let_def no_ledger_in_announce
          no_ledger_in_on_executed_order)
  from full full_once part part_once show ?thesis by blast
qed

theorem execution_port_order_witness:
  "status example_order \<noteq> EXECUTED \<and> status example_order \<noteq> CANCELED
   \<and> port_calls (events_of (execute example_env False example_order))
       = [AddExecutedOrder (order_of (execute example_env False example_order)),
          OnOrderExecution (order_of (execute example_env False example_order)),
          OnExecutedOrder 7 (order_of (execute example_env False example_order))]
   \<and> port_calls (events_of (execute_partially example_env False example_order))
       = [AddExecutedOrder (order_of (execute_partially example_env False example_order)),
          OnExecutedOrder 7 (order_of (execute_partially example_env False example_order))]"
proof -
  have a: "status example_order \<noteq> EXECUTED" and b: "status example_order \<noteq> CANCELED"
    by (simp_all add: example_order_def)
  have p: "get_position example_env (exchange example_order) (symbol example_order) = Some 7"
    by (simp add: example_env_def example_order_def)
  show ?thesis
    using a b p execution_port_order [OF a b, of example_env False] by simp
qed

subsection \<open>Partial execution\<close>

text \<open>
  Claim C2 as stated fails, in that \<open>execute_partially\<close> does not increase the filled
  quantity: on the active example order the filled quantity after the call is the one
  before the call.
\<close>

theorem execute_partially_same_filled_qty:
  "status example_order \<noteq> EXECUTED \<and> status example_order \<noteq> CANCELED
   \<and> \<not> filled_qty example_order
         < filled_qty (order_of (execute_partially example_env False example_order))
   \<and> filled_qty (order_of (execute_partially example_env False example_order))
       = filled_qty example_order"
  by (simp add: execute_partially_def example_order_def Let_def)

text \<open>
  Claim C2, amended. On an order that is neither canceled nor executed, \<open>execute_partially\<close>
  returns without raising, sets \<open>executed_at\<close> to the current time and the status to
  partially filled, and changes no other field: the filled quantity stays as the caller has
  set it before the call.
\<close>

theorem execute_partially_effect:
  assumes "status ord \<noteq> EXECUTED" and "status ord \<noteq> CANCELED"
  shows "raised (execute_partially e silent ord) = None
    \<and> order_of (execute_partially e silent ord)
        = ord\<lparr>executed_at := Some (now_to_timestamp e), status := PARTIALLY_FILLED\<rparr>
    \<and> executed_at (order_of (execute_partially e silent ord)) = Some (now_to_timestamp e)
    \<and> filled_qty (order_of (execute_partially e silent ord)) = filled_qty ord
    \<and> status (order_of (execute_partially e silent ord)) = PARTIALLY_FILLED"
  by (simp add: execute_partially_def Let_def)

theorem execute_partially_effect_witness:
  "status example_order \<noteq> EXECUTED \<and> status example_order \<noteq> CANCELED
   \<and> executed_at (order_of (execute_partially example_env False example_order))
       = Some 1700000000000
   \<and> filled_qty (order_of (execute_partially example_env False example_order)) = 0
   \<and> status (order_of (execute_partially example_env False example_order)) = PARTIALLY_FILLED"
proof -
  have a: "status example_order \<noteq> EXECUTED" and b: "status example_order \<noteq> CANCELED"
    by (simp_all add: example_order_def)
  have n: "now_to_timestamp example_env = 1700000000000"
    by (simp add: example_env_def)
  have f: "filled_qty example_order = 0"
    by (simp add: example_order_def)
  show ?thesis
    using a b n f execute_partially_effect [OF a b, of example_env False] by simp
qed

subsection \<open>Canceled and executed orders\<close>

text \<open>
  Claim C8 as stated fails, in that \<open>queue\<close> changes status and timestamps of a canceled
  order: it makes the canceled example order queued and clears \<open>canceled_at\<close>.
\<close>

theorem queue_reopens_canceled:
  "status canceled_order = CANCELED
   \<and> status (order_of (queue example_env canceled_order)) \<noteq> status canceled_order
   \<and> canceled_at (order_of (queue example_env canceled_order)) \<noteq> canceled_at canceled_order"
  by (simp add: queue_def canceled_order_def Let_def)

text \<open>
  Claim C8, amended. On an order that is executed or canceled, \<open>cancel\<close> and \<open>execute\<close> return
  the record unchanged and call no collaborator, and \<open>resubmit\<close> raises and leaves the record
  unchanged; \<open>queue\<close> sets the status to queued and clears \<open>canceled_at\<close>, and changes no
  other field.
\<close>

theorem terminal_frame:
  assumes "status ord = EXECUTED \<or> status ord = CANCELED"
  shows "cancel e silent source ord = Returned ord []
    \<and> execute e silent ord = Returned ord []
    \<and> resubmit e ord = Raised NotSupportedError ord []
    \<and> order_of (queue e ord) = ord\<lparr>status := QUEUED, canceled_at := None\<rparr>"
  using assms
  by (auto simp add: cancel_def execute_def resubmit_def queue_def status_defs Let_def)

theorem terminal_frame_witness:
  "(status canceled_order = EXECUTED \<or> status canceled_order = CANCELED)
   \<and> cancel example_env False ''stream'' canceled_order = Returned canceled_order []
   \<and> execute example_env False canceled_order = Returned canceled_order []
   \<and> resubmit example_env canceled_order = Raised NotSupportedError canceled_order []
   \<and> order_of (queue example_env canceled_order)
       = canceled_order\<lparr>status := QUEUED, canceled_at := None\<rparr>"
proof -
  have t: "status canceled_order = EXECUTED \<or> status canceled_order = CANCELED"
    by (simp add: canceled_order_def)
  show ?thesis
    using t terminal_frame [OF t, of example_env False "''stream''"] by simp
qed

subsection \<open>The timestamps along a sequence of calls\<close>

lemma fresh_stamps_match: "fresh ord \<Longrightarrow> stamps_match ord"
  by (auto simp add: fresh_def stamps_match_def status_defs)

lemma stamps_match_step:
  assumes "stamps_match ord"
    and "\<And>silent. c = ExecutePartially silent \<Longrightarrow> \<not> terminal ord"
  shows "stamps_match (order_of (apply_call e c ord))"
proof (cases c)
  case Queue
  with assms show ?thesis
    by (simp add: queue_def stamps_match_def status_defs Let_def)
next
  case Resubmit
  with assms show ?thesis
    by (simp add: resubmit_def stamps_match_def status_defs Let_def)
next
  case (Cancel silent source)
  with assms show ?thesis
    by (simp add: cancel_def stamps_match_def status_defs Let_def)
next
  case (Execute silent)
  with assms show ?thesis
    by (auto simp add: execute_def stamps_match_def status_defs Let_def)
next
  case (ExecutePartially silent)
  with assms show ?thesis
    by (auto simp add: execute_partially_def stamps_match_def terminal_def status_defs Let_def)
qed

lemma stamps_match_run:
  "stamps_match ord \<Longrightarrow> partial_fills_open cs ord \<Longrightarrow> stamps_match (run cs ord)"
proof (induction cs arbitrary: ord)
  case Nil
  then show ?case by simp
next
  case (Cons ec cs)
  obtain e c where ec: "ec = (e, c)" by (cases ec)
  from Cons.prems(2) ec have guard: "\<And>silent. c = ExecutePartially silent \<Longrightarrow> \<not> terminal ord"
    and rest: "partial_fills_open cs (order_of (apply_call e c ord))"
    by auto
  from Cons.prems(1) guard have "stamps_match (order_of (apply_call e c ord))"
    by (rule stamps_match_step)
  from Cons.IH [OF this rest] ec show ?case by simp
qed

text \<open>
  Claim C1 as stated fails, in that both timestamps can be set: a fresh order that is
  partially filled and then canceled is canceled with both \<open>executed_at\<close> and \<open>canceled_at\<close>
  set.
\<close>

theorem both_stamps_after_partial_cancel:
  "fresh example_order
   \<and> status (run partial_then_cancel example_order) = CANCELED
   \<and> executed_at (run partial_then_cancel example_order) \<noteq> None
   \<and> canceled_at (run partial_then_cancel example_order) \<noteq> None"
  by (simp add: partial_then_cancel_def fresh_def execute_partially_def cancel_def status_defs
        example_order_def Let_def)

text \<open>
  Claim C1, amended. After every sequence of \<open>queue\<close>, \<open>resubmit\<close>, \<open>cancel\<close>, \<open>execute\<close> and
  \<open>execute_partially\<close> calls on a fresh record, in which \<open>execute_partially\<close> is called only
  on orders neither canceled nor executed: if the status is executed or partially filled
  then \<open>executed_at\<close> is set, and \<open>canceled_at\<close> is set if and only if the status is canceled.
\<close>

theorem lifecycle_stamps:
  assumes "fresh ord" and "partial_fills_open cs ord"
  shows "(status (run cs ord) = EXECUTED \<or> status (run cs ord) = PARTIALLY_FILLED
            \<longrightarrow> executed_at (run cs ord) \<noteq> None)
    \<and> (canceled_at (run cs ord) \<noteq> None \<longleftrightarrow> status (run cs ord) = CANCELED)"
proof -
  from assms have "stamps_match (run cs ord)"
    by (simp add: fresh_stamps_match stamps_match_run)
  then show ?thesis
    by (simp add: stamps_match_def status_defs)
qed

theorem lifecycle_stamps_witness:
  "fresh example_order \<and> partial_fills_open example_calls example_order
   \<and> status (run example_calls example_order) = EXECUTED
   \<and> executed_at (run example_calls example_order) \<noteq> None
   \<and> canceled_at (run example_calls example_order) = None"
proof -
  have f: "fresh example_order"
    by (simp add: fresh_def status_defs example_order_def)
  have g: "partial_fills_open example_calls example_order"
    by (simp add: example_calls_def terminal_def execute_partially_def cancel_def queue_def
          resubmit_def execute_def status_defs example_order_def Let_def)
  have s: "status (run example_calls example_order) = EXECUTED"
    by (simp add: example_calls_def execute_partially_def cancel_def queue_def
          resubmit_def execute_def status_defs example_order_def Let_def)
  show ?thesis
    using f g s lifecycle_stamps [OF f g] by simp
qed

end
